theory Spec2Isabelle
  imports Main
begin

section \<open>Python values used by the plugin\<close>

text \<open>
  A Python character is modelled by its code point (\<open>ord c\<close>), a string by the list of
  its code points, so that non-ASCII names are covered. \<open>ascii\<close> embeds a literal.
\<close>

type_synonym pychar = nat
type_synonym pystr = "pychar list"

definition ascii :: "string \<Rightarrow> pystr" where
  "ascii s = map of_char s"

text \<open>\<open>"".join(parts)\<close> and \<open>sep.join(parts)\<close>.\<close>

definition join :: "pystr \<Rightarrow> pystr list \<Rightarrow> pystr" where
  "join sep xs = (case xs of [] \<Rightarrow> [] | y # ys \<Rightarrow> y @ concat (map (\<lambda>z. sep @ z) ys))"

text \<open>
  \<open>os.path.join(a, b)\<close> of \<open>posixpath\<close>: an absolute second component replaces the
  first one, otherwise the two are joined by a single slash.
\<close>

definition os_path_join :: "pystr \<Rightarrow> pystr \<Rightarrow> pystr" where
  "os_path_join a b =
     (if b \<noteq> [] \<and> hd b = of_char (CHR ''/'') then b
      else if a = [] \<or> last a = of_char (CHR ''/'') then a @ b
      else a @ ascii ''/'' @ b)"

text \<open>
  Option values as \<open>config.getvalue\<close> returns them for a \<open>store_true\<close> option:
  \<open>None\<close>, \<open>True\<close> or \<open>False\<close>; \<open>truthy\<close> is Python's \<open>bool(v)\<close>.
\<close>

datatype pyval = PyNone | PyBool bool

fun truthy :: "pyval \<Rightarrow> bool" where
  "truthy PyNone = False"
| "truthy (PyBool b) = b"

text \<open>
  Exceptions. \<open>OSError n\<close> carries the errno; every exception that is not an
  \<open>OSError\<close> (a failing assertion of a test, \<open>KeyboardInterrupt\<close>, ...) is an
  \<open>OtherException\<close> with its class name.
\<close>

datatype exn = OSError nat | OtherException string

fun is_OSError :: "exn \<Rightarrow> bool" where
  "is_OSError (OSError n) = True"
| "is_OSError (OtherException c) = False"

definition EEXIST :: nat where "EEXIST = 17"
definition EACCES :: nat where "EACCES = 13"

section \<open>The filename sanitizer\<close>

text \<open>
  \<^verbatim>\<open>
  def clean_filename(s):
      forbidden_chars = set('/?<>\:*|"')
      return "".join(
          c if c not in forbidden_chars and ord(c) < 127 else '_'
          for c in s
      )
  \<close>
  In the literal, \<open>\:\<close> is no escape sequence: it stands for a backslash and a colon.
\<close>

definition forbidden_chars :: "pychar set" where
  "forbidden_chars =
     set (ascii [CHR ''/'', CHR ''?'', CHR ''<'', CHR ''>'', CHR 0x5C,
                 CHR '':'', CHR ''*'', CHR ''|'', CHR 0x22])"

definition clean_filename :: "pystr \<Rightarrow> pystr" where
  "clean_filename s =
     join (ascii '''')
       (map (\<lambda>c. if c \<notin> forbidden_chars \<and> c < 127 then [c] else ascii ''_'') s)"

text \<open>A name that is already safe: no forbidden character, every code point below 127.\<close>

definition safe_name :: "pystr \<Rightarrow> bool" where
  "safe_name s = list_all (\<lambda>c. c \<notin> forbidden_chars \<and> c < 127) s"

section \<open>The outside world\<close>

text \<open>
  The plugin delegates to \<open>cProfile\<close>, \<open>pstats\<close>, \<open>os\<close> and \<open>pipes\<close>. Their objects
  are modelled by what was done to them:
  \<^item> a \<open>cProfile.Profile\<close> by the list of test items run under it;
  \<^item> a \<open>pstats.Stats\<close> by the term of calls that built it: \<open>Stats p\<close> is
    \<open>pstats.Stats(p)\<close>, \<open>Add s p\<close> is \<open>s.add(p)\<close>.
\<close>

datatype profiler = Profile (calls: "pystr list")

datatype stats = Stats pystr | Add stats pystr

datatype combined = FromProfiler profiler | FromStats stats

text \<open>
  A stage of the shell pipeline either exits with a code (0 is success) or its command is
  not found.
\<close>

datatype stage_outcome = Exits nat | Missing

fun exit_code :: "stage_outcome \<Rightarrow> nat" where
  "exit_code (Exits n) = n"
| "exit_code Missing = 127"

text \<open>
  What the library calls do is an input of the model: for each call that can raise,
  \<open>env\<close> says, from the argument of the call, whether it does (\<open>None\<close>: it returns
  normally). \<open>makedirs_raises\<close> is \<open>os.makedirs(path)\<close>, \<open>dump_stats_raises\<close> is
  \<open>dump_stats(path)\<close> of a profiler or of statistics, \<open>stats_raises\<close> is reading a
  statistics file (\<open>pstats.Stats(path)\<close> and \<open>add(path)\<close>), \<open>stage_result\<close> is what a
  command of the shell pipeline does. \<open>execute_raises\<close> is \<open>__multicall__.execute\<close> for
  the test item of that name: a failing test raises there.
\<close>

record env =
  makedirs_raises :: "pystr \<Rightarrow> exn option"
  execute_raises :: "pystr \<Rightarrow> exn option"
  dump_stats_raises :: "pystr \<Rightarrow> exn option"
  stats_raises :: "pystr \<Rightarrow> exn option"
  stage_result :: "pystr \<Rightarrow> stage_outcome"

text \<open>The effects on the outside world, logged in the order they happen.\<close>

datatype effect =
    Makedirs pystr
  | NewProfile
  | RunCall pystr "exn option"
  | DumpStats combined pystr
  | PipeCopy "(pystr \<times> pystr) list" pystr pystr int
  | Write pystr
  | PrintStats pystr nat

text \<open>
  \<open>pipes.Template.copy(infile, outfile)\<close> is \<open>os.system\<close> of the shell pipeline built
  from the steps. It returns the wait status of the shell, which is the one of the last
  command of the pipeline; a failing or missing command raises nothing in Python.
\<close>

fun sh_status :: "stage_outcome list \<Rightarrow> nat" where
  "sh_status [] = 0"
| "sh_status [r] = exit_code r"
| "sh_status (r # rs) = sh_status rs"

definition pipes_copy :: "env \<Rightarrow> (pystr \<times> pystr) list \<Rightarrow> pystr \<Rightarrow> pystr \<Rightarrow> int" where
  "pipes_copy e steps infile outfile =
     int (256 * sh_status (map (\<lambda>(cmd, kind). stage_result e cmd) steps))"

section \<open>The plugin\<close>

record profiling =
  svg :: bool
  combined_only :: bool
  prof_names :: "pystr list"
  svg_name :: "pystr option"
  combined_name :: "pystr option"
  shared_profiler :: "profiler option"

text \<open>Truth value of an attribute that is \<open>None\<close> or a string.\<close>

fun truthy_str :: "pystr option \<Rightarrow> bool" where
  "truthy_str None = False"
| "truthy_str (Some s) = (s \<noteq> [])"

text \<open>
  \<open>Profiling.__init__(self, svg, combined_only)\<close>: in combined-only mode the shared
  profiler is created here.
\<close>

definition Profiling_init :: "pyval \<Rightarrow> pyval \<Rightarrow> effect list \<Rightarrow> profiling \<times> effect list" where
  "Profiling_init svg_arg combined_only_arg log =
     (let self = \<lparr>svg = truthy svg_arg, combined_only = truthy combined_only_arg,
                  prof_names = [], svg_name = None, combined_name = None,
                  shared_profiler = None\<rparr>
      in if combined_only self
         then (self\<lparr>shared_profiler := Some (Profile [])\<rparr>, log @ [NewProfile])
         else (self, log))"

text \<open>
  \<^verbatim>\<open>
  def pytest_sessionstart(self, session):
      try:
          os.makedirs("prof")
      except OSError:
          pass
  \<close>
\<close>

definition pytest_sessionstart ::
  "env \<Rightarrow> profiling \<Rightarrow> effect list \<Rightarrow> exn option \<times> profiling \<times> effect list" where
  "pytest_sessionstart e self log =
     (case makedirs_raises e (ascii ''prof'') of
        None \<Rightarrow> (None, self, log @ [Makedirs (ascii ''prof'')])
      | Some x \<Rightarrow> if is_OSError x then (None, self, log) else (Some x, self, log))"

text \<open>
  The loop \<open>for prof in self.prof_names[1:]: combined.add(prof)\<close>; reading a
  statistics file may raise.
\<close>

fun add_all :: "env \<Rightarrow> stats \<Rightarrow> pystr list \<Rightarrow> exn + stats" where
  "add_all e c [] = Inr c"
| "add_all e c (p # ps) =
     (case stats_raises e p of
        Some x \<Rightarrow> Inl x
      | None \<Rightarrow> add_all e (Add c p) ps)"

text \<open>
  The first part of \<open>pytest_sessionfinish\<close>: the value of \<open>combined\<close>
  (\<open>None\<close> when there is nothing to combine).
\<close>

definition combined_source :: "env \<Rightarrow> profiling \<Rightarrow> exn + combined option" where
  "combined_source e self =
     (if combined_only self then Inr (map_option FromProfiler (shared_profiler self))
      else (case prof_names self of
              [] \<Rightarrow> Inr None
            | p # ps \<Rightarrow>
                (case stats_raises e p of
                   Some x \<Rightarrow> Inl x
                 | None \<Rightarrow>
                     (case add_all e (Stats p) ps of
                        Inl x \<Rightarrow> Inl x
                      | Inr c \<Rightarrow> Inr (Some (FromStats c))))))"

definition combined_file :: pystr where
  "combined_file = os_path_join (ascii ''prof'') (ascii ''combined.prof'')"

definition svg_file :: pystr where
  "svg_file = os_path_join (ascii ''prof'') (ascii ''combined.svg'')"

definition svg_steps :: "(pystr \<times> pystr) list" where
  "svg_steps = [(ascii ''gprof2dot -f pstats $IN'', ascii ''f-''),
                (ascii ''dot -Tsvg -o $OUT'', ascii ''-f'')]"

text \<open>
  \<open>pytest_sessionfinish\<close>. A profiler and a statistics object are both true in
  \<open>if combined:\<close>; only \<open>None\<close> is false. The value \<open>t.copy\<close> returns is dropped.
\<close>

definition pytest_sessionfinish ::
  "env \<Rightarrow> profiling \<Rightarrow> effect list \<Rightarrow> exn option \<times> profiling \<times> effect list" where
  "pytest_sessionfinish e self log =
     (case combined_source e self of
        Inl x \<Rightarrow> (Some x, self, log)
      | Inr None \<Rightarrow> (None, self, log)
      | Inr (Some c) \<Rightarrow>
          (case dump_stats_raises e combined_file of
             Some x \<Rightarrow> (Some x, self, log)
           | None \<Rightarrow>
               (let self1 = self\<lparr>combined_name := Some combined_file\<rparr>;
                    log1 = log @ [DumpStats c combined_file]
                in if svg self1
                   then (let self2 = self1\<lparr>svg_name := Some svg_file\<rparr>;
                             status = pipes_copy e svg_steps combined_file svg_file
                         in (None, self2,
                             log1 @ [PipeCopy svg_steps combined_file svg_file status]))
                   else (None, self1, log1))))"

text \<open>\<open>pytest_terminal_summary\<close>: the two \<open>if\<close> blocks in turn.\<close>

definition report_combined :: "env \<Rightarrow> profiling \<Rightarrow> effect list \<Rightarrow> exn option \<times> effect list" where
  "report_combined e self log =
     (if truthy_str (combined_name self)
      then (let n = the (combined_name self);
                log1 = log @ [Write (ascii ''Profiling (from '' @ n @ ascii ''):'' @ [10])]
            in case stats_raises e n of
                 Some x \<Rightarrow> (Some x, log1)
               | None \<Rightarrow> (None, log1 @ [PrintStats n 20]))
      else (None, log))"

definition report_svg :: "profiling \<Rightarrow> effect list \<Rightarrow> effect list" where
  "report_svg self log =
     (if truthy_str (svg_name self)
      then log @ [Write (ascii ''SVG profile in '' @ the (svg_name self) @ ascii ''.'' @ [10])]
      else log)"

definition pytest_terminal_summary ::
  "env \<Rightarrow> profiling \<Rightarrow> effect list \<Rightarrow> exn option \<times> profiling \<times> effect list" where
  "pytest_terminal_summary e self log =
     (case report_combined e self log of
        (Some x, log1) \<Rightarrow> (Some x, self, log1)
      | (None, log1) \<Rightarrow> (None, self, report_svg self log1))"

text \<open>
  \<open>profiler.runcall(f)\<close> enables the profiler, calls \<open>f\<close> and disables the profiler in
  a \<open>finally\<close>: the profiler has seen the call whether it raised or not, and an
  exception of \<open>f\<close> goes on to the caller.
\<close>

definition runcall :: "env \<Rightarrow> profiler \<Rightarrow> pystr \<Rightarrow> exn option \<times> profiler" where
  "runcall e p name = (execute_raises e name, Profile (calls p @ [name]))"

text \<open>
  \<^verbatim>\<open>
  def pytest_pyfunc_call(self, __multicall__, pyfuncitem):
      if self.combined_only:
          profiler = self.shared_profiler
          prof_name = None
      else:
          prof_name = os.path.join("prof", clean_filename(pyfuncitem.name) + ".prof")
          profiler = cProfile.Profile()

      profiler.runcall(__multicall__.execute)

      if prof_name:
          profiler.dump_stats(prof_name)
          self.prof_names.append(prof_name)
  \<close>
  The test item is given by its name. In combined-only mode the profiler that runs the
  call is the shared object, so the attribute sees the call too.
\<close>

definition prof_file :: "pystr \<Rightarrow> pystr" where
  "prof_file name = os_path_join (ascii ''prof'') (clean_filename name @ ascii ''.prof'')"

definition pytest_pyfunc_call ::
  "env \<Rightarrow> pystr \<Rightarrow> profiling \<Rightarrow> effect list \<Rightarrow> exn option \<times> profiling \<times> effect list" where
  "pytest_pyfunc_call e name self log =
     (if combined_only self
      then (case shared_profiler self of
              None \<Rightarrow> (Some (OtherException ''AttributeError''), self, log)
            | Some p \<Rightarrow>
                (case runcall e p name of
                   (r, p') \<Rightarrow> (r, self\<lparr>shared_profiler := Some p'\<rparr>, log @ [RunCall name r])))
      else (let prof_name = prof_file name;
                log0 = log @ [NewProfile]
            in case runcall e (Profile []) name of
                 (Some x, p') \<Rightarrow> (Some x, self, log0 @ [RunCall name (Some x)])
               | (None, p') \<Rightarrow>
                   (let log1 = log0 @ [RunCall name None]
                    in if truthy_str (Some prof_name)
                       then (case dump_stats_raises e prof_name of
                               Some x \<Rightarrow> (Some x, self, log1)
                             | None \<Rightarrow>
                                 (None, self\<lparr>prof_names := prof_names self @ [prof_name]\<rparr>,
                                  log1 @ [DumpStats (FromProfiler p') prof_name]))
                       else (None, self, log1))))"

text \<open>
  \<^verbatim>\<open>
  def pytest_configure(config):
      profile_enable = any(config.getvalue(x) for x in ('profile', 'profile_svg'))
      if profile_enable:
          config.pluginmanager.register(Profiling(
              svg=config.getvalue('profile_svg'),
              combined_only=config.getvalue('profile_combined_only'),
          ))
  \<close>
  The configuration maps an option name to its value; the result is the plugin that was
  registered, if any.
\<close>

type_synonym config = "string \<Rightarrow> pyval"

definition profile_enable :: "config \<Rightarrow> bool" where
  "profile_enable cfg = list_ex (\<lambda>x. truthy (cfg x)) [''profile'', ''profile_svg'']"

definition pytest_configure :: "config \<Rightarrow> effect list \<Rightarrow> profiling option \<times> effect list" where
  "pytest_configure cfg log =
     (if profile_enable cfg
      then (case Profiling_init (cfg ''profile_svg'') (cfg ''profile_combined_only'') log of
              (p, log') \<Rightarrow> (Some p, log'))
      else (None, log))"

text \<open>The configuration a command line gives: the flags present are \<open>True\<close>.\<close>

definition command_line :: "bool \<Rightarrow> bool \<Rightarrow> bool \<Rightarrow> config" where
  "command_line p c s =
     (\<lambda>x. if x = ''profile'' then PyBool p
          else if x = ''profile_combined_only'' then PyBool c
          else if x = ''profile_svg'' then PyBool s
          else PyNone)"

section \<open>The host calling the hooks\<close>

text \<open>
  The host framework calls the hooks of the registered plugin one after the other and
  decides itself what to do when one raises. Whatever it decides, the hooks it ends up
  calling form a list; the attributes a hook has set before raising stay set. Each call
  comes with the environment it meets, so the outside world may change between calls.
\<close>

datatype hook = SessionStart | PyfuncCall pystr | SessionFinish | TerminalSummary

fun call_hook ::
  "env \<Rightarrow> hook \<Rightarrow> profiling \<Rightarrow> effect list \<Rightarrow> exn option \<times> profiling \<times> effect list" where
  "call_hook e SessionStart self log = pytest_sessionstart e self log"
| "call_hook e (PyfuncCall name) self log = pytest_pyfunc_call e name self log"
| "call_hook e SessionFinish self log = pytest_sessionfinish e self log"
| "call_hook e TerminalSummary self log = pytest_terminal_summary e self log"

fun run_hooks ::
  "(env \<times> hook) list \<Rightarrow> profiling \<Rightarrow> effect list \<Rightarrow> profiling \<times> effect list" where
  "run_hooks [] self log = (self, log)"
| "run_hooks ((e, h) # hs) self log =
     (case call_hook e h self log of (r, self', log') \<Rightarrow> run_hooks hs self' log')"

text \<open>Predicates on hooks and effects, for counting.\<close>

fun is_finish :: "hook \<Rightarrow> bool" where
  "is_finish SessionFinish = True"
| "is_finish h = False"

fun is_pyfunc_call :: "hook \<Rightarrow> bool" where
  "is_pyfunc_call (PyfuncCall name) = True"
| "is_pyfunc_call h = False"

fun is_dump :: "effect \<Rightarrow> bool" where
  "is_dump (DumpStats c p) = True"
| "is_dump x = False"

fun is_dump_to :: "pystr \<Rightarrow> effect \<Rightarrow> bool" where
  "is_dump_to f (DumpStats c p) = (p = f)"
| "is_dump_to f x = False"

fun is_new_profile :: "effect \<Rightarrow> bool" where
  "is_new_profile NewProfile = True"
| "is_new_profile x = False"

fun is_write :: "effect \<Rightarrow> bool" where
  "is_write (Write s) = True"
| "is_write (PrintStats p n) = True"
| "is_write x = False"

text \<open>The plugin constructed with the two arguments, then driven through the hooks.\<close>

definition run_session :: "pyval \<Rightarrow> pyval \<Rightarrow> (env \<times> hook) list \<Rightarrow> profiling \<times> effect list" where
  "run_session svg_arg combined_only_arg hs =
     (case Profiling_init svg_arg combined_only_arg [] of
        (self, log) \<Rightarrow> run_hooks hs self log)"

text \<open>The number of session finishes among the calls.\<close>

definition finishes :: "(env \<times> hook) list \<Rightarrow> nat" where
  "finishes hs = length (filter is_finish (map snd hs))"

text \<open>No per-test call among the calls.\<close>

definition no_test_ran :: "(env \<times> hook) list \<Rightarrow> bool" where
  "no_test_ran hs = list_all (\<lambda>h. \<not> is_pyfunc_call h) (map snd hs)"

text \<open>In combined-only mode the shared profiler exists.\<close>

definition shared_ok :: "profiling \<Rightarrow> bool" where
  "shared_ok self = (if combined_only self then shared_profiler self \<noteq> None else True)"

section \<open>Concrete runs\<close>

text \<open>Environments and plugin instances used to evaluate the hooks.\<close>

definition env_ok :: env where
  "env_ok = \<lparr>makedirs_raises = (\<lambda>p. None), execute_raises = (\<lambda>n. None),
             dump_stats_raises = (\<lambda>p. None), stats_raises = (\<lambda>p. None),
             stage_result = (\<lambda>c. Exits 0)\<rparr>"

definition env_makedirs_denied :: env where
  "env_makedirs_denied = env_ok\<lparr>makedirs_raises := (\<lambda>p. Some (OSError EACCES))\<rparr>"

definition env_makedirs_interrupted :: env where
  "env_makedirs_interrupted =
     env_ok\<lparr>makedirs_raises := (\<lambda>p. Some (OtherException ''KeyboardInterrupt''))\<rparr>"

definition env_failing_test :: env where
  "env_failing_test =
     env_ok\<lparr>execute_raises := (\<lambda>n. Some (OtherException ''AssertionError''))\<rparr>"

definition env_gprof2dot_missing :: env where
  "env_gprof2dot_missing =
     env_ok\<lparr>stage_result :=
       (\<lambda>c. if c = ascii ''gprof2dot -f pstats $IN'' then Missing else Exits 0)\<rparr>"

definition env_dot_fails :: env where
  "env_dot_fails =
     env_ok\<lparr>stage_result :=
       (\<lambda>c. if c = ascii ''dot -Tsvg -o $OUT'' then Exits 1 else Exits 0)\<rparr>"

definition plugin_per_test :: profiling where
  "plugin_per_test = fst (Profiling_init (PyBool False) (PyBool False) [])"

definition plugin_svg :: profiling where
  "plugin_svg = fst (Profiling_init (PyBool True) (PyBool False) [])"

definition plugin_combined :: profiling where
  "plugin_combined = fst (Profiling_init (PyBool False) (PyBool True) [])"

definition plugin_two_tests :: profiling where
  "plugin_two_tests =
     fst (run_hooks [(env_ok, SessionStart), (env_ok, PyfuncCall (ascii ''test_a'')),
                     (env_ok, PyfuncCall (ascii ''test_b/weird:name''))] plugin_per_test [])"

definition plugin_svg_one_test :: profiling where
  "plugin_svg_one_test =
     fst (run_hooks [(env_ok, SessionStart), (env_ok, PyfuncCall (ascii ''test_a''))]
            plugin_svg [])"

text \<open>Sequences of hook calls, each with the environment it meets.\<close>

definition session_combined :: "(env \<times> hook) list" where
  "session_combined =
     [(env_ok, SessionStart), (env_failing_test, PyfuncCall (ascii ''test_a'')),
      (env_ok, PyfuncCall (ascii ''test_b'')), (env_ok, SessionFinish)]"

definition session_one_test :: "(env \<times> hook) list" where
  "session_one_test = [(env_ok, SessionStart), (env_ok, PyfuncCall (ascii ''test_a''))]"

definition session_no_test :: "(env \<times> hook) list" where
  "session_no_test =
     [(env_makedirs_denied, SessionStart), (env_ok, SessionFinish), (env_ok, TerminalSummary)]"

section \<open>The sanitizer: character by character\<close>

lemma forbidden_chars_codes: "forbidden_chars = {47, 63, 60, 62, 92, 58, 42, 124, 34}"
  by (auto simp: forbidden_chars_def ascii_def)

lemma join_empty_sep: "join [] xs = concat xs"
proof (cases xs)
  case Nil
  then show ?thesis by (simp add: join_def)
next
  case (Cons y ys)
  have "map ((@) []) ys = ys" by (induction ys) simp_all
  with Cons show ?thesis by (simp add: join_def)
qed

lemma clean_filename_map:
  "clean_filename s = map (\<lambda>c. if c \<notin> forbidden_chars \<and> c < 127 then c else 95) s"
  unfolding clean_filename_def ascii_def join_empty_sep list.map
  by (induction s) simp_all

lemma underscore_safe: "(95::nat) \<notin> forbidden_chars \<and> (95::nat) < 127"
  by (simp add: forbidden_chars_codes)

text \<open>
  C1. For every string \<open>s\<close>, \<open>clean_filename s\<close> replaces each character that is one of
  \<open>/ ? < > \ : * | "\<close> (code points 47, 63, 60, 62, 92, 58, 42, 124, 34) or has a code
  point of 127 or more by exactly one underscore (code point 95), and leaves every other
  character as it is.
\<close>

theorem clean_filename_replaces:
  "clean_filename s =
     map (\<lambda>c. if c \<in> {47, 63, 60, 62, 92, 58, 42, 124, 34} \<or> 127 \<le> c then 95 else c) s"
  unfolding clean_filename_map forbidden_chars_codes
  by (rule map_cong) auto

theorem clean_filename_replaces_witness:
  "clean_filename (ascii ''test_b/weird:name'' @ [233, 126, 127])
     = ascii ''test_b_weird_name_~_''"
  using clean_filename_replaces [of "ascii ''test_b/weird:name'' @ [233, 126, 127]"]
  by (simp add: ascii_def)

text \<open>
  C10. \<open>clean_filename\<close> preserves the length: the output has as many characters as the
  input.
\<close>

theorem clean_filename_length: "length (clean_filename s) = length s"
  by (simp add: clean_filename_map)

theorem clean_filename_length_witness:
  "length (clean_filename (ascii ''a/b:c'' @ [200])) = 6"
  using clean_filename_length [of "ascii ''a/b:c'' @ [200]"]
  by (simp add: ascii_def)

text \<open>
  C8. \<open>clean_filename\<close> is idempotent on every string, and it is the identity on a
  name that is already safe (no forbidden character, every code point below 127).
\<close>

theorem clean_filename_idempotent:
  "clean_filename (clean_filename x) = clean_filename x \<and>
   (safe_name y \<longrightarrow> clean_filename y = y)"
proof
  show "clean_filename (clean_filename x) = clean_filename x"
    using underscore_safe by (simp add: clean_filename_map)
  show "safe_name y \<longrightarrow> clean_filename y = y"
    by (auto simp: clean_filename_map safe_name_def list_all_iff intro: map_idI)
qed

theorem clean_filename_idempotent_witness:
  "clean_filename (clean_filename (ascii ''a/b'')) = clean_filename (ascii ''a/b'') \<and>
   safe_name (ascii ''test_a'') \<and> clean_filename (ascii ''test_a'') = ascii ''test_a''"
  using clean_filename_idempotent [of "ascii ''a/b''" "ascii ''test_a''"]
  by (simp add: safe_name_def ascii_def forbidden_chars_codes)

section \<open>Registration\<close>

text \<open>
  C9. The plugin is registered if and only if the \<open>profile\<close> or the \<open>profile_svg\<close>
  option is set: \<open>--profile-svg\<close> alone registers it, \<open>--profile-combined-only\<close> alone
  registers nothing.
\<close>

theorem pytest_configure_registers:
  "(fst (pytest_configure cfg log) \<noteq> None) =
     (truthy (cfg ''profile'') \<or> truthy (cfg ''profile_svg'')) \<and>
   fst (pytest_configure (command_line False False True) log) \<noteq> None \<and>
   fst (pytest_configure (command_line False True False) log) = None"
  by (simp add: pytest_configure_def profile_enable_def command_line_def split: prod.splits)

theorem pytest_configure_registers_witness:
  "fst (pytest_configure (command_line True False False) []) \<noteq> None"
  using pytest_configure_registers [of "command_line True False False" "[]"]
  by (simp add: command_line_def)

section \<open>Session start\<close>

text \<open>
  C2, as stated, fails: the claim is that an error of the directory creation is ignored
  exactly when the directory exists already. With the directory creation refused
  (\<open>EACCES\<close>, which is not \<open>EEXIST\<close>), \<open>pytest_sessionstart\<close> returns normally.
\<close>

theorem sessionstart_EACCES_ignored:
  "EACCES \<noteq> EEXIST \<and>
   makedirs_raises env_makedirs_denied (ascii ''prof'') = Some (OSError EACCES) \<and>
   pytest_sessionstart env_makedirs_denied plugin_per_test [] = (None, plugin_per_test, [])"
  by (simp add: EACCES_def EEXIST_def env_makedirs_denied_def env_ok_def pytest_sessionstart_def)

text \<open>
  C2, amended. \<open>pytest_sessionstart\<close> ignores every \<open>OSError\<close> of the directory
  creation, whatever its errno: an exception leaves the hook if and only if
  \<open>os.makedirs\<close> raised it and it is not an \<open>OSError\<close>.
\<close>

theorem sessionstart_ignores_every_OSError:
  "((fst (pytest_sessionstart e self log) = Some x) =
      (makedirs_raises e (ascii ''prof'') = Some x \<and> \<not> is_OSError x)) \<and>
   (makedirs_raises e (ascii ''prof'') = Some (OSError n) \<longrightarrow>
      pytest_sessionstart e self log = (None, self, log))"
  by (auto simp: pytest_sessionstart_def split: option.splits)

theorem sessionstart_ignores_every_OSError_witness:
  "makedirs_raises env_makedirs_denied (ascii ''prof'') = Some (OSError EACCES) \<and>
   pytest_sessionstart env_makedirs_denied plugin_per_test [] = (None, plugin_per_test, []) \<and>
   fst (pytest_sessionstart env_makedirs_interrupted plugin_per_test [])
     = Some (OtherException ''KeyboardInterrupt'')"
  using sessionstart_ignores_every_OSError
          [of env_makedirs_denied plugin_per_test "[]" "OtherException ''KeyboardInterrupt''" EACCES]
        sessionstart_ignores_every_OSError
          [of env_makedirs_interrupted plugin_per_test "[]" "OtherException ''KeyboardInterrupt''" EACCES]
  by (simp add: env_makedirs_denied_def env_makedirs_interrupted_def env_ok_def)

section \<open>The per-test hook\<close>

lemma combined_file_ascii: "combined_file = ascii ''prof/combined.prof''"
  by (simp add: combined_file_def os_path_join_def ascii_def)

lemma svg_file_ascii: "svg_file = ascii ''prof/combined.svg''"
  by (simp add: svg_file_def os_path_join_def ascii_def)

text \<open>
  A sanitized name never starts with a slash, so \<open>os.path.join\<close> keeps the directory.
\<close>

lemma prof_file_path: "prof_file name = ascii ''prof/'' @ clean_filename name @ ascii ''.prof''"
proof -
  have "hd (clean_filename name @ ascii ''.prof'') \<noteq> 47"
    by (cases name) (auto simp: clean_filename_map forbidden_chars_codes ascii_def)
  then show ?thesis
    by (simp add: prof_file_def os_path_join_def ascii_def)
qed

lemma plugin_svg_one_test_eq:
  "plugin_svg_one_test =
     \<lparr>svg = True, combined_only = False, prof_names = [ascii ''prof/test_a.prof''],
      svg_name = None, combined_name = None, shared_profiler = None\<rparr>"
  by (simp add: plugin_svg_one_test_def plugin_svg_def Profiling_init_def env_ok_def
      pytest_sessionstart_def pytest_pyfunc_call_def runcall_def Let_def prof_file_path)
     (simp add: ascii_def clean_filename_map forbidden_chars_codes)

lemma plugin_two_tests_eq:
  "plugin_two_tests =
     \<lparr>svg = False, combined_only = False,
      prof_names = [ascii ''prof/test_a.prof'', ascii ''prof/test_b_weird_name.prof''],
      svg_name = None, combined_name = None, shared_profiler = None\<rparr>"
  by (simp add: plugin_two_tests_def plugin_per_test_def Profiling_init_def env_ok_def
      pytest_sessionstart_def pytest_pyfunc_call_def runcall_def Let_def prof_file_path)
     (simp add: ascii_def clean_filename_map forbidden_chars_codes)

text \<open>
  C7, as stated, fails: the claim is that the statistics of a test are persisted and
  recorded whether the downstream chain succeeds or fails. With a test whose execution
  raises, the exception leaves \<open>pytest_pyfunc_call\<close>: no statistics file is written and
  the list of recorded names stays empty.
\<close>

theorem failing_test_not_persisted:
  "execute_raises env_failing_test (ascii ''test_a'') = Some (OtherException ''AssertionError'') \<and>
   pytest_pyfunc_call env_failing_test (ascii ''test_a'') plugin_per_test [] =
     (Some (OtherException ''AssertionError''), plugin_per_test,
      [NewProfile, RunCall (ascii ''test_a'') (Some (OtherException ''AssertionError''))]) \<and>
   prof_names plugin_per_test = []"
  by (simp add: pytest_pyfunc_call_def runcall_def env_failing_test_def env_ok_def
      plugin_per_test_def Profiling_init_def Let_def)

text \<open>
  C7, amended. In per-test mode, when the downstream chain returns normally (and writing
  the file does not fail), the hook persists the statistics of a fresh profiler to
  \<open>prof/<sanitized name>.prof\<close> and appends that path to the end of the recorded
  names. When the chain raises, the exception leaves the hook, nothing is written and
  nothing is recorded.
\<close>

theorem pyfunc_call_per_test:
  assumes "\<not> combined_only self"
  shows "(execute_raises e name = None \<and> dump_stats_raises e (prof_file name) = None \<longrightarrow>
            pytest_pyfunc_call e name self log =
              (None, self\<lparr>prof_names := prof_names self @ [prof_file name]\<rparr>,
               log @ [NewProfile, RunCall name None,
                      DumpStats (FromProfiler (Profile [name])) (prof_file name)])) \<and>
         (execute_raises e name = Some x \<longrightarrow>
            pytest_pyfunc_call e name self log =
              (Some x, self, log @ [NewProfile, RunCall name (Some x)])) \<and>
         prof_file name = ascii ''prof/'' @ clean_filename name @ ascii ''.prof''"
proof -
  have ne: "prof_file name \<noteq> []" by (simp add: prof_file_path ascii_def)
  show ?thesis
    using assms ne
    by (simp add: pytest_pyfunc_call_def runcall_def Let_def prof_file_path [symmetric])
qed

theorem pyfunc_call_per_test_witness:
  "\<not> combined_only plugin_per_test \<and>
   pytest_pyfunc_call env_ok (ascii ''test_b/weird:name'') plugin_per_test [] =
     (None, plugin_per_test\<lparr>prof_names := [ascii ''prof/test_b_weird_name.prof'']\<rparr>,
      [NewProfile, RunCall (ascii ''test_b/weird:name'') None,
       DumpStats (FromProfiler (Profile [ascii ''test_b/weird:name'']))
         (ascii ''prof/test_b_weird_name.prof'')]) \<and>
   pytest_pyfunc_call env_failing_test (ascii ''test_b/weird:name'') plugin_per_test [] =
     (Some (OtherException ''AssertionError''), plugin_per_test,
      [NewProfile,
       RunCall (ascii ''test_b/weird:name'') (Some (OtherException ''AssertionError''))])"
proof -
  have pt: "\<not> combined_only plugin_per_test"
    by (simp add: plugin_per_test_def Profiling_init_def)
  have pn: "prof_names plugin_per_test = []"
    by (simp add: plugin_per_test_def Profiling_init_def)
  have cl: "clean_filename (ascii ''test_b/weird:name'') = ascii ''test_b_weird_name''"
    by (simp add: clean_filename_map forbidden_chars_codes ascii_def)
  show ?thesis
    using pt pn
      pyfunc_call_per_test [OF pt, where e = env_ok and name = "ascii ''test_b/weird:name''"
        and x = "OtherException ''AssertionError''" and log = "[]"]
      pyfunc_call_per_test [OF pt, where e = env_failing_test
        and name = "ascii ''test_b/weird:name''"
        and x = "OtherException ''AssertionError''" and log = "[]"]
    by (simp add: cl env_ok_def env_failing_test_def) (simp add: ascii_def)
qed

section \<open>Session finish\<close>

lemma add_all_ok:
  "list_all (\<lambda>q. stats_raises e q = None) ps \<Longrightarrow> add_all e c ps = Inr (foldl Add c ps)"
  by (induction ps arbitrary: c) simp_all

lemma combined_source_stage:
  "combined_source (e\<lparr>stage_result := r\<rparr>) self = combined_source e self"
proof -
  have "add_all (e\<lparr>stage_result := r\<rparr>) c ps = add_all e c ps" for c ps
    by (induction ps arbitrary: c) (simp_all split: option.splits)
  then show ?thesis by (simp add: combined_source_def split: list.splits option.splits)
qed

text \<open>
  C4. At session finish, outside combined-only mode and with at least one recorded file
  (the files being readable), \<open>combined\<close> is the statistics of the first recorded file
  with each later file added in recorded order; in combined-only mode it is the shared
  profiler. That value is what is written to \<open>prof/combined.prof\<close>.
\<close>

theorem sessionfinish_combined_source:
  "(\<not> combined_only self \<and> prof_names self = p # ps \<and>
      list_all (\<lambda>q. stats_raises e q = None) (p # ps) \<longrightarrow>
      combined_source e self = Inr (Some (FromStats (foldl Add (Stats p) ps)))) \<and>
   (combined_only self \<and> shared_profiler self = Some sp \<longrightarrow>
      combined_source e self = Inr (Some (FromProfiler sp))) \<and>
   (combined_source e self = Inr (Some c) \<and> dump_stats_raises e combined_file = None \<longrightarrow>
      filter is_dump (snd (snd (pytest_sessionfinish e self []))) = [DumpStats c combined_file])"
  by (simp add: combined_source_def add_all_ok pytest_sessionfinish_def Let_def)

theorem sessionfinish_combined_source_witness:
  "prof_names plugin_two_tests = [ascii ''prof/test_a.prof'', ascii ''prof/test_b_weird_name.prof''] \<and>
   combined_source env_ok plugin_two_tests =
     Inr (Some (FromStats (Add (Stats (ascii ''prof/test_a.prof''))
                               (ascii ''prof/test_b_weird_name.prof'')))) \<and>
   combined_source env_ok plugin_combined = Inr (Some (FromProfiler (Profile []))) \<and>
   filter is_dump (snd (snd (pytest_sessionfinish env_ok plugin_combined [])))
     = [DumpStats (FromProfiler (Profile [])) (ascii ''prof/combined.prof'')]"
  using sessionfinish_combined_source
          [where self = plugin_two_tests and p = "ascii ''prof/test_a.prof''"
             and ps = "[ascii ''prof/test_b_weird_name.prof'']" and e = env_ok
             and sp = "Profile []" and c = "FromProfiler (Profile [])"]
        sessionfinish_combined_source
          [where self = plugin_combined and p = "ascii ''prof/test_a.prof''"
             and ps = "[ascii ''prof/test_b_weird_name.prof'']" and e = env_ok
             and sp = "Profile []" and c = "FromProfiler (Profile [])"]
  by (simp add: plugin_two_tests_eq plugin_combined_def Profiling_init_def env_ok_def
      combined_file_ascii)

text \<open>
  C3, as stated, fails: the claim is that a failing or missing stage of the rendering
  pipeline makes \<open>pytest_sessionfinish\<close> raise. With SVG rendering requested and one
  recorded test, the hook returns normally when \<open>gprof2dot\<close> is missing, and when
  \<open>dot\<close> exits with code 1.
\<close>

theorem sessionfinish_missing_stage_returns:
  "svg plugin_svg_one_test \<and>
   stage_result env_gprof2dot_missing (ascii ''gprof2dot -f pstats $IN'') = Missing \<and>
   fst (pytest_sessionfinish env_gprof2dot_missing plugin_svg_one_test []) = None \<and>
   stage_result env_dot_fails (ascii ''dot -Tsvg -o $OUT'') = Exits 1 \<and>
   fst (pytest_sessionfinish env_dot_fails plugin_svg_one_test []) = None"
  by (simp add: plugin_svg_one_test_eq env_gprof2dot_missing_def env_dot_fails_def env_ok_def
      pytest_sessionfinish_def combined_source_def Let_def)

text \<open>
  C3, amended. When SVG rendering is requested and the combined statistics were written,
  \<open>pytest_sessionfinish\<close> runs the pipeline through the shell and drops its exit status:
  whatever the two stages do, the hook raises nothing for them, returns normally and has
  \<open>svg_name\<close> set to \<open>prof/combined.svg\<close>. Neither the exception the hook returns nor
  the plugin's attributes depend on the outcome of the stages.
\<close>

theorem sessionfinish_drops_pipeline_status:
  "fst (pytest_sessionfinish (e\<lparr>stage_result := r\<rparr>) self log)
     = fst (pytest_sessionfinish e self log) \<and>
   fst (snd (pytest_sessionfinish (e\<lparr>stage_result := r\<rparr>) self log))
     = fst (snd (pytest_sessionfinish e self log)) \<and>
   (svg self \<and> combined_source e self = Inr (Some c) \<and> dump_stats_raises e combined_file = None \<longrightarrow>
      pytest_sessionfinish e self log =
        (None, self\<lparr>combined_name := Some combined_file, svg_name := Some svg_file\<rparr>,
         log @ [DumpStats c combined_file,
                PipeCopy svg_steps combined_file svg_file
                  (pipes_copy e svg_steps combined_file svg_file)]))"
  by (simp add: pytest_sessionfinish_def combined_source_stage Let_def
      split: sum.splits option.splits)

theorem sessionfinish_drops_pipeline_status_witness:
  "svg plugin_svg_one_test \<and>
   stage_result env_gprof2dot_missing (ascii ''gprof2dot -f pstats $IN'') = Missing \<and>
   pytest_sessionfinish env_gprof2dot_missing plugin_svg_one_test [] =
     (None,
      plugin_svg_one_test\<lparr>combined_name := Some (ascii ''prof/combined.prof''),
                           svg_name := Some (ascii ''prof/combined.svg'')\<rparr>,
      [DumpStats (FromStats (Stats (ascii ''prof/test_a.prof''))) (ascii ''prof/combined.prof''),
       PipeCopy svg_steps (ascii ''prof/combined.prof'') (ascii ''prof/combined.svg'') 0])"
  using sessionfinish_drops_pipeline_status
          [where e = env_gprof2dot_missing and r = "stage_result env_gprof2dot_missing"
             and self = plugin_svg_one_test and log = "[]"
             and c = "FromStats (Stats (ascii ''prof/test_a.prof''))"]
  by (simp add: plugin_svg_one_test_eq env_gprof2dot_missing_def env_ok_def combined_source_def
      combined_file_ascii svg_file_ascii pipes_copy_def svg_steps_def ascii_def)

section \<open>Whole sessions\<close>

lemma run_hooks_append:
  "run_hooks (hs @ hs') self log =
     (case run_hooks hs self log of (self', log') \<Rightarrow> run_hooks hs' self' log')"
  by (induction hs arbitrary: self log) (auto split: prod.splits)

text \<open>What one hook call changes.\<close>

lemma sessionstart_effects:
  "pytest_sessionstart e self log = (r, self', log') \<Longrightarrow>
     self' = self \<and> filter is_dump log' = filter is_dump log \<and>
     filter is_new_profile log' = filter is_new_profile log \<and>
     filter is_write log' = filter is_write log"
  by (auto simp: pytest_sessionstart_def split: option.splits if_splits)

lemma terminal_summary_effects:
  "pytest_terminal_summary e self log = (r, self', log') \<Longrightarrow>
     self' = self \<and> filter is_dump log' = filter is_dump log \<and>
     filter is_new_profile log' = filter is_new_profile log"
  by (auto simp: pytest_terminal_summary_def report_combined_def report_svg_def Let_def
      split: option.splits if_splits prod.splits)

lemma terminal_summary_silent:
  "pytest_terminal_summary e self log = (r, self', log') \<Longrightarrow>
     combined_name self = None \<Longrightarrow> svg_name self = None \<Longrightarrow> log' = log"
  by (auto simp: pytest_terminal_summary_def report_combined_def report_svg_def Let_def
      split: option.splits if_splits prod.splits)

lemma pyfunc_call_combined_effects:
  "pytest_pyfunc_call e name self log = (r, self', log') \<Longrightarrow> combined_only self \<Longrightarrow>
     combined_only self' \<and> prof_names self' = prof_names self \<and>
     (shared_profiler self \<noteq> None \<longrightarrow> shared_profiler self' \<noteq> None) \<and>
     filter is_dump log' = filter is_dump log \<and>
     filter is_new_profile log' = filter is_new_profile log"
  by (auto simp: pytest_pyfunc_call_def runcall_def split: option.splits)

lemma sessionfinish_effects:
  "pytest_sessionfinish e self log = (r, self', log') \<Longrightarrow>
     combined_only self' = combined_only self \<and> prof_names self' = prof_names self \<and>
     shared_profiler self' = shared_profiler self \<and>
     filter is_new_profile log' = filter is_new_profile log \<and>
     (filter is_dump log' = filter is_dump log \<or>
      (\<exists>c. filter is_dump log' = filter is_dump log @ [DumpStats c combined_file]))"
  by (auto simp: pytest_sessionfinish_def Let_def split: sum.splits option.splits if_splits)

lemma call_hook_combined:
  assumes "call_hook e h self log = (r, self', log')"
    and "combined_only self" and "shared_profiler self \<noteq> None" and "prof_names self = []"
  shows "combined_only self' \<and> shared_profiler self' \<noteq> None \<and> prof_names self' = [] \<and>
         filter is_new_profile log' = filter is_new_profile log \<and>
         (\<exists>ds. filter is_dump log' = filter is_dump log @ ds \<and>
               length ds \<le> finishes [(e, h)] \<and>
               list_all (is_dump_to combined_file) ds)"
proof (cases h)
  case SessionStart
  with assms sessionstart_effects [of e self log r self' log'] show ?thesis by simp
next
  case (PyfuncCall name)
  with assms pyfunc_call_combined_effects [of e name self log r self' log'] show ?thesis by simp
next
  case SessionFinish
  with assms sessionfinish_effects [of e self log r self' log'] show ?thesis
    by (auto simp: finishes_def)
next
  case TerminalSummary
  with assms terminal_summary_effects [of e self log r self' log'] show ?thesis by simp
qed

lemma finishes_Cons: "finishes (x # hs) = finishes [x] + finishes hs"
  by (simp add: finishes_def)

lemma run_hooks_combined:
  assumes "run_hooks hs self log = (self', log')"
    and "combined_only self" and "shared_profiler self \<noteq> None" and "prof_names self = []"
  shows "combined_only self' \<and> shared_profiler self' \<noteq> None \<and> prof_names self' = [] \<and>
         filter is_new_profile log' = filter is_new_profile log \<and>
         (\<exists>ds. filter is_dump log' = filter is_dump log @ ds \<and>
               length ds \<le> finishes hs \<and>
               list_all (is_dump_to combined_file) ds)"
  using assms
proof (induction hs arbitrary: self log)
  case Nil
  then show ?case by simp
next
  case (Cons eh hs)
  obtain e h where eh: "eh = (e, h)" by (cases eh) auto
  obtain r self1 log1 where step: "call_hook e h self log = (r, self1, log1)"
    by (cases "call_hook e h self log") auto
  from call_hook_combined [OF step Cons.prems(2,3,4)]
  obtain ds1 where s1: "combined_only self1" "shared_profiler self1 \<noteq> None" "prof_names self1 = []"
    "filter is_new_profile log1 = filter is_new_profile log"
    "filter is_dump log1 = filter is_dump log @ ds1"
    "length ds1 \<le> finishes [(e, h)]" "list_all (is_dump_to combined_file) ds1"
    by blast
  from Cons.prems(1) step eh have rest: "run_hooks hs self1 log1 = (self', log')" by simp
  from Cons.IH [OF rest s1(1,2,3)]
  obtain ds2 where s2: "combined_only self'" "shared_profiler self' \<noteq> None" "prof_names self' = []"
    "filter is_new_profile log' = filter is_new_profile log1"
    "filter is_dump log' = filter is_dump log1 @ ds2"
    "length ds2 \<le> finishes hs" "list_all (is_dump_to combined_file) ds2"
    by blast
  have "filter is_dump log' = filter is_dump log @ (ds1 @ ds2)"
    using s1(5) s2(5) by simp
  moreover have "length (ds1 @ ds2) \<le> finishes (eh # hs)"
    using s1(6) s2(6) finishes_Cons [of eh hs] eh by simp
  moreover have "list_all (is_dump_to combined_file) (ds1 @ ds2)"
    using s1(7) s2(7) by simp
  ultimately show ?case using s2(1,2,3,4) s1(4) by metis
qed

text \<open>
  C5. In combined-only mode, whatever hooks the host calls and whatever the outside world
  does: no per-test entry is ever recorded and the per-test hook writes no statistics
  file; exactly one profiler is created, the one of the construction; statistics are
  written at most once per session finish, and only to \<open>prof/combined.prof\<close>.
\<close>

theorem combined_only_session:
  assumes "truthy c"
  shows "prof_names (fst (run_session s c hs)) = [] \<and>
         filter is_new_profile (snd (run_session s c hs)) = [NewProfile] \<and>
         length (filter is_dump (snd (run_session s c hs))) \<le> finishes hs \<and>
         list_all (is_dump_to combined_file) (filter is_dump (snd (run_session s c hs))) \<and>
         filter is_dump (snd (run_session s c (hs @ [(e, PyfuncCall name)])))
           = filter is_dump (snd (run_session s c hs)) \<and>
         prof_names (fst (run_session s c (hs @ [(e, PyfuncCall name)]))) = []"
proof -
  obtain self0 log0 where init: "Profiling_init s c [] = (self0, log0)"
    by (cases "Profiling_init s c []") auto
  with assms have i0: "combined_only self0" "shared_profiler self0 \<noteq> None" "prof_names self0 = []"
    "log0 = [NewProfile]"
    by (auto simp: Profiling_init_def Let_def)
  obtain self1 log1 where run: "run_hooks hs self0 log0 = (self1, log1)"
    by (cases "run_hooks hs self0 log0") auto
  from run_hooks_combined [OF run i0(1,2,3)]
  obtain ds where r1: "combined_only self1" "shared_profiler self1 \<noteq> None" "prof_names self1 = []"
    "filter is_new_profile log1 = filter is_new_profile log0"
    "filter is_dump log1 = filter is_dump log0 @ ds"
    "length ds \<le> finishes hs" "list_all (is_dump_to combined_file) ds"
    by blast
  obtain r self2 log2 where call: "pytest_pyfunc_call e name self1 log1 = (r, self2, log2)"
    by (cases "pytest_pyfunc_call e name self1 log1") auto
  from pyfunc_call_combined_effects [OF call r1(1)]
  have r2: "prof_names self2 = prof_names self1" "filter is_dump log2 = filter is_dump log1"
    by simp_all
  have s1: "run_session s c hs = (self1, log1)"
    by (simp add: run_session_def init run)
  have s2: "run_session s c (hs @ [(e, PyfuncCall name)]) = (self2, log2)"
    by (simp add: run_session_def init run run_hooks_append call)
  show ?thesis
    using r1 r2 i0(4) by (simp add: s1 s2)
qed

theorem combined_only_session_witness:
  "truthy (PyBool True) \<and>
   finishes session_combined = 1 \<and>
   prof_names (fst (run_session (PyBool False) (PyBool True) session_combined)) = [] \<and>
   filter is_new_profile (snd (run_session (PyBool False) (PyBool True) session_combined))
     = [NewProfile] \<and>
   filter is_dump (snd (run_session (PyBool False) (PyBool True) session_combined))
     = [DumpStats (FromProfiler (Profile [ascii ''test_a'', ascii ''test_b'']))
          (ascii ''prof/combined.prof'')] \<and>
   filter is_dump (snd (run_session (PyBool False) (PyBool True)
       (session_combined @ [(env_ok, PyfuncCall (ascii ''test_c''))])))
     = [DumpStats (FromProfiler (Profile [ascii ''test_a'', ascii ''test_b'']))
          (ascii ''prof/combined.prof'')]"
proof -
  have ev: "filter is_dump (snd (run_session (PyBool False) (PyBool True) session_combined))
     = [DumpStats (FromProfiler (Profile [ascii ''test_a'', ascii ''test_b'']))
          (ascii ''prof/combined.prof'')]"
    by (simp add: run_session_def session_combined_def Profiling_init_def env_ok_def
        env_failing_test_def pytest_sessionstart_def pytest_pyfunc_call_def runcall_def
        pytest_sessionfinish_def combined_source_def combined_file_ascii Let_def)
  have fin: "finishes session_combined = 1"
    by (simp add: finishes_def session_combined_def)
  show ?thesis
    using combined_only_session [of "PyBool True" "PyBool False" session_combined
        env_ok "ascii ''test_c''"] ev fin
    by simp
qed

text \<open>A plugin that went through \<open>__init__\<close> has its shared profiler when it needs it.\<close>

lemma pyfunc_call_shared_ok:
  "pytest_pyfunc_call e name self log = (r, self', log') \<Longrightarrow> shared_ok self \<Longrightarrow>
     shared_ok self' \<and> combined_only self' = combined_only self"
  by (auto simp: pytest_pyfunc_call_def runcall_def shared_ok_def Let_def
      split: option.splits if_splits)

lemma call_hook_shared_ok:
  assumes "call_hook e h self log = (r, self', log')" and "shared_ok self"
  shows "shared_ok self' \<and> combined_only self' = combined_only self"
proof (cases h)
  case SessionStart
  with assms sessionstart_effects [of e self log r self' log'] show ?thesis by simp
next
  case (PyfuncCall name)
  with assms pyfunc_call_shared_ok [of e name self log r self' log'] show ?thesis by simp
next
  case SessionFinish
  with assms sessionfinish_effects [of e self log r self' log'] show ?thesis
    by (simp add: shared_ok_def)
next
  case TerminalSummary
  with assms terminal_summary_effects [of e self log r self' log'] show ?thesis by simp
qed

lemma run_hooks_shared_ok:
  "run_hooks hs self log = (self', log') \<Longrightarrow> shared_ok self \<Longrightarrow>
     shared_ok self' \<and> combined_only self' = combined_only self"
proof (induction hs arbitrary: self log)
  case Nil
  then show ?case by simp
next
  case (Cons eh hs)
  obtain e h where eh: "eh = (e, h)" by (cases eh) auto
  obtain r self1 log1 where step: "call_hook e h self log = (r, self1, log1)"
    by (cases "call_hook e h self log") auto
  from call_hook_shared_ok [OF step Cons.prems(2)]
  have s1: "shared_ok self1" "combined_only self1 = combined_only self" by simp_all
  from Cons.prems(1) step eh have "run_hooks hs self1 log1 = (self', log')" by simp
  from Cons.IH [OF this s1(1)] s1(2) show ?case by simp
qed

lemma run_session_shared_ok:
  "shared_ok (fst (run_session s c hs)) \<and> combined_only (fst (run_session s c hs)) = truthy c"
proof -
  obtain self0 log0 where init: "Profiling_init s c [] = (self0, log0)"
    by (cases "Profiling_init s c []") auto
  then have i0: "shared_ok self0" "combined_only self0 = truthy c"
    by (auto simp: Profiling_init_def Let_def shared_ok_def split: if_splits)
  obtain self1 log1 where run: "run_hooks hs self0 log0 = (self1, log1)"
    by (cases "run_hooks hs self0 log0") auto
  from run_hooks_shared_ok [OF run i0(1)] i0(2) show ?thesis
    by (simp add: run_session_def init run)
qed

lemma sessionfinish_writes_iff:
  assumes "shared_ok self"
  shows "list_ex (is_dump_to combined_file) (snd (snd (pytest_sessionfinish e self []))) =
           ((combined_only self \<or> prof_names self \<noteq> []) \<and>
            fst (pytest_sessionfinish e self []) = None)"
  using assms
  by (auto simp: pytest_sessionfinish_def combined_source_def shared_ok_def Let_def
      split: sum.splits option.splits list.splits if_splits)

lemma sessionfinish_no_failure:
  assumes "list_all (\<lambda>q. stats_raises e q = None) (prof_names self)"
    and "dump_stats_raises e combined_file = None"
  shows "fst (pytest_sessionfinish e self []) = None"
  using assms
  by (auto simp: pytest_sessionfinish_def combined_source_def add_all_ok Let_def
      split: sum.splits option.splits list.splits)

text \<open>Without a per-test call, a per-test plugin stays as constructed and stays silent.\<close>

lemma call_hook_idle:
  assumes "call_hook e h self log = (r, self', log')" and "\<not> is_pyfunc_call h"
    and "\<not> combined_only self" and "prof_names self = []"
    and "combined_name self = None" and "svg_name self = None"
  shows "self' = self \<and> filter is_dump log' = filter is_dump log \<and>
         filter is_write log' = filter is_write log"
proof (cases h)
  case SessionStart
  with assms sessionstart_effects [of e self log r self' log'] show ?thesis by simp
next
  case (PyfuncCall name)
  with assms show ?thesis by simp
next
  case SessionFinish
  with assms show ?thesis
    by (simp add: pytest_sessionfinish_def combined_source_def)
next
  case TerminalSummary
  with assms terminal_summary_silent [of e self log r self' log']
    terminal_summary_effects [of e self log r self' log'] show ?thesis by simp
qed

lemma run_hooks_idle:
  "run_hooks hs self log = (self', log') \<Longrightarrow> no_test_ran hs \<Longrightarrow>
   \<not> combined_only self \<Longrightarrow> prof_names self = [] \<Longrightarrow>
   combined_name self = None \<Longrightarrow> svg_name self = None \<Longrightarrow>
     self' = self \<and> filter is_dump log' = filter is_dump log \<and>
     filter is_write log' = filter is_write log"
proof (induction hs arbitrary: log)
  case Nil
  then show ?case by simp
next
  case (Cons eh hs)
  obtain e h where eh: "eh = (e, h)" by (cases eh) auto
  obtain r self1 log1 where step: "call_hook e h self log = (r, self1, log1)"
    by (cases "call_hook e h self log") auto
  from Cons.prems(2) eh have nh: "\<not> is_pyfunc_call h" and nhs: "no_test_ran hs"
    by (simp_all add: no_test_ran_def)
  from call_hook_idle [OF step nh Cons.prems(3,4,5,6)]
  have s1: "self1 = self" "filter is_dump log1 = filter is_dump log"
    "filter is_write log1 = filter is_write log" by simp_all
  from Cons.prems(1) step s1(1) eh have "run_hooks hs self log1 = (self', log')" by simp
  from Cons.IH [OF this nhs Cons.prems(3,4,5,6)] s1 show ?case by simp
qed

text \<open>
  C6. After any sequence of hooks, session finish writes \<open>prof/combined.prof\<close> if and
  only if the plugin is in combined-only mode or at least one per-test file was recorded,
  and the hook does not raise (which it does not when the statistics files can be read
  and the combined file can be written). With no per-test call and without combined-only
  mode, nothing is written and the terminal summary prints nothing.
\<close>

theorem combined_file_written_iff:
  "(list_ex (is_dump_to combined_file)
      (snd (snd (pytest_sessionfinish e (fst (run_session s c hs)) []))) =
     ((combined_only (fst (run_session s c hs)) \<or> prof_names (fst (run_session s c hs)) \<noteq> []) \<and>
      fst (pytest_sessionfinish e (fst (run_session s c hs)) []) = None)) \<and>
   (list_all (\<lambda>q. stats_raises e q = None) (prof_names (fst (run_session s c hs))) \<and>
    dump_stats_raises e combined_file = None \<longrightarrow>
      list_ex (is_dump_to combined_file)
        (snd (snd (pytest_sessionfinish e (fst (run_session s c hs)) []))) =
      (combined_only (fst (run_session s c hs)) \<or> prof_names (fst (run_session s c hs)) \<noteq> [])) \<and>
   combined_only (fst (run_session s c hs)) = truthy c \<and>
   (\<not> truthy c \<and> no_test_ran hs \<longrightarrow>
      filter is_dump (snd (run_session s c hs)) = [] \<and>
      filter is_write (snd (run_session s c hs)) = [])"
proof -
  let ?self = "fst (run_session s c hs)"
  have ok: "shared_ok ?self" and co: "combined_only ?self = truthy c"
    using run_session_shared_ok [of s c hs] by simp_all
  have a: "list_ex (is_dump_to combined_file) (snd (snd (pytest_sessionfinish e ?self []))) =
     ((combined_only ?self \<or> prof_names ?self \<noteq> []) \<and> fst (pytest_sessionfinish e ?self []) = None)"
    by (rule sessionfinish_writes_iff [OF ok])
  have b: "list_all (\<lambda>q. stats_raises e q = None) (prof_names ?self) \<and>
      dump_stats_raises e combined_file = None \<longrightarrow>
      list_ex (is_dump_to combined_file) (snd (snd (pytest_sessionfinish e ?self []))) =
      (combined_only ?self \<or> prof_names ?self \<noteq> [])"
    using a sessionfinish_no_failure [of e ?self] by blast
  have d: "\<not> truthy c \<and> no_test_ran hs \<longrightarrow>
      filter is_dump (snd (run_session s c hs)) = [] \<and>
      filter is_write (snd (run_session s c hs)) = []"
  proof
    assume h: "\<not> truthy c \<and> no_test_ran hs"
    obtain self0 log0 where init: "Profiling_init s c [] = (self0, log0)"
      by (cases "Profiling_init s c []") auto
    with h have i0: "\<not> combined_only self0" "prof_names self0 = []" "combined_name self0 = None"
      "svg_name self0 = None" "log0 = []"
      by (auto simp: Profiling_init_def Let_def)
    obtain self1 log1 where run: "run_hooks hs self0 log0 = (self1, log1)"
      by (cases "run_hooks hs self0 log0") auto
    from run_hooks_idle [OF run _ i0(1,2,3,4)] h i0(5)
    have "filter is_dump log1 = [] \<and> filter is_write log1 = []" by simp
    then show "filter is_dump (snd (run_session s c hs)) = [] \<and>
      filter is_write (snd (run_session s c hs)) = []"
      by (simp add: run_session_def init run)
  qed
  from a b co d show ?thesis by blast
qed

theorem combined_file_written_iff_witness:
  "list_all (\<lambda>q. stats_raises env_ok q = None)
     (prof_names (fst (run_session (PyBool False) (PyBool False) session_one_test))) \<and>
   dump_stats_raises env_ok combined_file = None \<and>
   prof_names (fst (run_session (PyBool False) (PyBool False) session_one_test))
     = [ascii ''prof/test_a.prof''] \<and>
   list_ex (is_dump_to combined_file)
     (snd (snd (pytest_sessionfinish env_ok
        (fst (run_session (PyBool False) (PyBool False) session_one_test)) []))) \<and>
   \<not> truthy (PyBool False) \<and>
   no_test_ran session_no_test \<and>
   prof_names (fst (run_session (PyBool False) (PyBool False) session_no_test)) = [] \<and>
   \<not> list_ex (is_dump_to combined_file)
     (snd (snd (pytest_sessionfinish env_ok
        (fst (run_session (PyBool False) (PyBool False) session_no_test)) []))) \<and>
   filter is_dump (snd (run_session (PyBool False) (PyBool False) session_no_test)) = [] \<and>
   filter is_write (snd (run_session (PyBool False) (PyBool False) session_no_test)) = []"
proof -
  have cl: "clean_filename (ascii ''test_a'') = ascii ''test_a''"
    by (simp add: clean_filename_map forbidden_chars_codes ascii_def)
  have p1: "prof_names (fst (run_session (PyBool False) (PyBool False) session_one_test))
      = [ascii ''prof/test_a.prof'']"
    by (simp add: run_session_def session_one_test_def Profiling_init_def env_ok_def
        pytest_sessionstart_def pytest_pyfunc_call_def runcall_def Let_def prof_file_path cl)
       (simp add: ascii_def)
  have p0: "prof_names (fst (run_session (PyBool False) (PyBool False) session_no_test)) = []"
    by (simp add: run_session_def session_no_test_def Profiling_init_def env_ok_def
        env_makedirs_denied_def pytest_sessionstart_def
        pytest_sessionfinish_def combined_source_def pytest_terminal_summary_def
        report_combined_def report_svg_def Let_def)
  have ok: "stats_raises env_ok (ascii ''prof/test_a.prof'') = None"
    "dump_stats_raises env_ok combined_file = None"
    by (simp_all add: env_ok_def)
  have nt: "no_test_ran session_no_test"
    by (simp add: no_test_ran_def session_no_test_def)
  show ?thesis
    using combined_file_written_iff [of env_ok "PyBool False" "PyBool False" session_one_test]
      combined_file_written_iff [of env_ok "PyBool False" "PyBool False" session_no_test]
    by (auto simp: p1 p0 ok nt)
qed

end
